theory Spec2Isabelle
  imports Complex_Main
begin

section \<open>Python values produced by the JSON decoder\<close>

text \<open>
  The script \<^verbatim>\<open>scripts/ci/json_dup_key_check.py\<close> hands whatever the decoder
  returns to \<^verbatim>\<open>check_duplicate_keys\<close>, so the model covers every value the
  decoder can return for a JSON document, not only objects.

  A JSON number without fraction and exponent is decoded to a Python \<^verbatim>\<open>int\<close>,
  any other number to a \<^verbatim>\<open>float\<close>.  Only the equality of floats matters
  below (set membership), so a float is represented by the rational it denotes, or by one
  of the two infinities that an out-of-range literal such as \<^verbatim>\<open>1e999\<close> yields.
  Each \<open>char\<close> of a JSON string stands for one code point of the Python \<^verbatim>\<open>str\<close>.

  With its default settings, as line 25 calls it, the decoder of Python's \<^verbatim>\<open>json\<close>
  module also accepts the constants \<^verbatim>\<open>NaN\<close>, \<^verbatim>\<open>Infinity\<close> and
  \<^verbatim>\<open>-Infinity\<close> where a value is expected, and returns the corresponding floats;
  they are not part of JSON.  \<open>json\<close> is therefore the syntax the decoder accepts, and
  \<open>valid_json\<close> below singles out the documents that are JSON.  The decoder returns one
  and the same float object for every \<^verbatim>\<open>NaN\<close>, which a set finds by identity.
\<close>

datatype pyfloat = Finite rat | PosInf | NegInf | NaN

datatype literal_constant = CNaN | CInfinity | CNegInfinity

datatype json =
    JNull
  | JBool bool
  | JInt int
  | JFloat pyfloat
  | JConstant literal_constant
  | JString string
  | JArray "json list"
  | JObject "(string \<times> json) list"

datatype pyval =
    PNone
  | PBool bool
  | PInt int
  | PFloat pyfloat
  | PStr string
  | PList "pyval list"
  | PTuple "pyval list"

datatype exn =
    SystemExit int
  | TypeError
  | ValueError
  | JSONDecodeError string
  | UnicodeDecodeError
  | FileNotFoundError
  | NotADirectoryError
  | IsADirectoryError
  | PermissionError
  | OSError

subsection \<open>Decoding with \<^verbatim>\<open>object_pairs_hook\<close>\<close>

text \<open>
  \<^verbatim>\<open>object_pairs_hook=lambda pairs: pairs\<close> (line 25): the decoder calls the hook
  on the ordered list of \<^verbatim>\<open>(key, value)\<close> tuples of every object literal, innermost
  first, and uses what the hook returns in place of a \<^verbatim>\<open>dict\<close>.  The lambda returns
  the list it was given.
\<close>

definition object_pairs_hook :: "pyval list \<Rightarrow> pyval" where
  "object_pairs_hook pairs = PList pairs"

fun decode :: "(pyval list \<Rightarrow> pyval) \<Rightarrow> json \<Rightarrow> pyval" where
  "decode hook JNull = PNone"
| "decode hook (JBool b) = PBool b"
| "decode hook (JInt i) = PInt i"
| "decode hook (JFloat x) = PFloat x"
| "decode hook (JConstant c) =
     PFloat (case c of CNaN \<Rightarrow> NaN | CInfinity \<Rightarrow> PosInf | CNegInfinity \<Rightarrow> NegInf)"
| "decode hook (JString s) = PStr s"
| "decode hook (JArray xs) = PList (map (decode hook) xs)"
| "decode hook (JObject members) =
     hook (map (\<lambda>m. PTuple [PStr (fst m), decode hook (snd m)]) members)"

section \<open>The duplicate check\<close>

subsection \<open>Iteration, unpacking and set membership as Python performs them\<close>

text \<open>
  \<^verbatim>\<open>for key, value in pairs\<close> asks \<^verbatim>\<open>pairs\<close> for an iterator and unpacks every
  item into exactly two targets.  Lists, tuples and strings are iterable (a string yields
  its characters as one-character strings); \<^verbatim>\<open>None\<close>, booleans and numbers are not
  and raise \<^verbatim>\<open>TypeError\<close>.  An iterable item with other than two elements raises
  \<^verbatim>\<open>ValueError\<close>.
\<close>

fun iter :: "pyval \<Rightarrow> exn + pyval list" where
  "iter (PList xs) = Inr xs"
| "iter (PTuple xs) = Inr xs"
| "iter (PStr s) = Inr (map (\<lambda>c. PStr [c]) s)"
| "iter _ = Inl TypeError"

definition unpack2 :: "pyval \<Rightarrow> exn + pyval \<times> pyval" where
  "unpack2 item =
     (case iter item of
        Inl e \<Rightarrow> Inl e
      | Inr [key, val] \<Rightarrow> Inr (key, val)
      | Inr _ \<Rightarrow> Inl ValueError)"

text \<open>
  \<^verbatim>\<open>key in keys_seen\<close> and \<^verbatim>\<open>keys_seen.add(key)\<close> hash the key first: a list
  is unhashable, and so is a tuple with an unhashable component (\<^verbatim>\<open>TypeError\<close>).
  Two hashable values are the same set element when they compare equal with \<^verbatim>\<open>==\<close>:
  strings by their text, numbers by their value across \<^verbatim>\<open>bool\<close>, \<^verbatim>\<open>int\<close> and
  \<^verbatim>\<open>float\<close> (\<^verbatim>\<open>True == 1 == 1.0\<close>), tuples componentwise.  \<open>hkey\<close> is that
  identity: \<open>hash_key\<close> maps equal values, and only those, to the same \<open>hkey\<close>.
\<close>

datatype hkey = HNone | HNum pyfloat | HStr string | HTuple "hkey list"

fun sequence :: "(exn + 'a) list \<Rightarrow> exn + 'a list" where
  "sequence [] = Inr []"
| "sequence (Inl e # rs) = Inl e"
| "sequence (Inr x # rs) = (case sequence rs of Inl e \<Rightarrow> Inl e | Inr xs \<Rightarrow> Inr (x # xs))"

fun hash_key :: "pyval \<Rightarrow> exn + hkey" where
  "hash_key PNone = Inr HNone"
| "hash_key (PBool b) = Inr (HNum (Finite (if b then 1 else 0)))"
| "hash_key (PInt i) = Inr (HNum (Finite (of_int i)))"
| "hash_key (PFloat x) = Inr (HNum x)"
| "hash_key (PStr s) = Inr (HStr s)"
| "hash_key (PList xs) = Inl TypeError"
| "hash_key (PTuple xs) =
     (case sequence (map hash_key xs) of Inl e \<Rightarrow> Inl e | Inr hs \<Rightarrow> Inr (HTuple hs))"

subsection \<open>\<^verbatim>\<open>check_duplicate_keys\<close> (lines 6 to 13)\<close>

text \<open>
  The loop of lines 9 to 12, with \<^verbatim>\<open>keys_seen\<close> passed along: it returns at the first
  key already seen, and an item that cannot be unpacked or hashed raises when the loop
  reaches it.
\<close>

fun check_loop :: "hkey set \<Rightarrow> pyval list \<Rightarrow> exn + bool" where
  "check_loop keys_seen [] = Inr False"
| "check_loop keys_seen (item # rest) =
     (case unpack2 item of
        Inl e \<Rightarrow> Inl e
      | Inr (key, val) \<Rightarrow>
          (case hash_key key of
             Inl e \<Rightarrow> Inl e
           | Inr k \<Rightarrow>
               if k \<in> keys_seen then Inr True
               else check_loop (insert k keys_seen) rest))"

definition check_duplicate_keys :: "pyval \<Rightarrow> exn + bool" where
  "check_duplicate_keys pairs =
     (case iter pairs of
        Inl e \<Rightarrow> Inl e
      | Inr items \<Rightarrow> check_loop {} items)"

section \<open>The command-line program\<close>

subsection \<open>The process and its surroundings\<close>

text \<open>
  What a file's text is to the decoder: bytes that are not text in the expected encoding,
  text that the decoder rejects (with its error detail, the \<^verbatim>\<open>str\<close> of the
  \<^verbatim>\<open>JSONDecodeError\<close>), or a document that it accepts.
  Limits of the interpreter (the recursion depth of the decoder, the digit limit of integer
  literals) are outside the model.
\<close>

datatype content = Undecodable | Malformed string | Document json

text \<open>
  \<open>fs w path\<close> is what the operating system answers when \<^verbatim>\<open>open(path, 'r')\<close>
  resolves \<open>path\<close>; the model does not resolve paths itself.  The answers are
  \<^item> \<open>NoEntry\<close>: no such file or directory (\<^verbatim>\<open>ENOENT\<close>), the last component or a
    directory on the way to it does not exist;
  \<^item> \<open>NotADirectory\<close>: a component used as a directory is not one
    (\<^verbatim>\<open>ENOTDIR\<close>), as for \<^verbatim>\<open>plain.json/child\<close> beside a regular file
    \<^verbatim>\<open>plain.json\<close>;
  \<^item> \<open>NameTooLong\<close>: the path or one of its components exceeds the system's limit
    (\<^verbatim>\<open>ENAMETOOLONG\<close>);
  \<^item> \<open>Forbidden\<close>: permission denied (\<^verbatim>\<open>EACCES\<close>);
  \<^item> \<open>Directory\<close>: the path names a directory (\<^verbatim>\<open>EISDIR\<close>);
  \<^item> \<open>Regular f\<close>: the path names a file that is opened, with content \<open>f\<close>.

  In the first three cases the path names no existing file.  Python raises the subclass
  of \<^verbatim>\<open>OSError\<close> that belongs to the error number, and plain \<^verbatim>\<open>OSError\<close> for
  \<^verbatim>\<open>ENAMETOOLONG\<close>, which has no subclass.
\<close>

datatype node = NoEntry | NotADirectory | NameTooLong | Forbidden | Directory | Regular content

record world =
  argv :: "string list"
  fs :: "string \<Rightarrow> node"

datatype call = Open string | JsonLoad

record proc =
  stdout :: "string list"
  calls :: "call list"

definition print :: "string \<Rightarrow> proc \<Rightarrow> proc" where
  "print line p = p\<lparr>stdout := stdout p @ [line]\<rparr>"

definition open_file :: "world \<Rightarrow> string \<Rightarrow> proc \<Rightarrow> (exn + content) \<times> proc" where
  "open_file w file_path p =
     (case fs w file_path of
        NoEntry \<Rightarrow> Inl FileNotFoundError
      | NotADirectory \<Rightarrow> Inl NotADirectoryError
      | NameTooLong \<Rightarrow> Inl OSError
      | Forbidden \<Rightarrow> Inl PermissionError
      | Directory \<Rightarrow> Inl IsADirectoryError
      | Regular f \<Rightarrow> Inr f,
      p\<lparr>calls := calls p @ [Open file_path]\<rparr>)"

definition json_load :: "content \<Rightarrow> (pyval list \<Rightarrow> pyval) \<Rightarrow> proc \<Rightarrow> (exn + pyval) \<times> proc" where
  "json_load f hook p =
     (case f of
        Undecodable \<Rightarrow> Inl UnicodeDecodeError
      | Malformed detail \<Rightarrow> Inl (JSONDecodeError detail)
      | Document d \<Rightarrow> Inr (decode hook d),
      p\<lparr>calls := calls p @ [JsonLoad]\<rparr>)"

subsection \<open>\<^verbatim>\<open>main\<close> (lines 15 to 40)\<close>

text \<open>
  Every path through \<^verbatim>\<open>main\<close> ends by raising: \<^verbatim>\<open>sys.exit\<close> raises
  \<^verbatim>\<open>SystemExit\<close>, which neither \<^verbatim>\<open>except\<close> clause matches.  So the body of the
  \<^verbatim>\<open>try\<close> statement and \<^verbatim>\<open>main\<close> return the exception raised and the process
  state reached.
\<close>

definition try_body :: "world \<Rightarrow> string \<Rightarrow> proc \<Rightarrow> exn \<times> proc" where
  "try_body w file_path p =
     (case open_file w file_path p of
        (Inl e, p1) \<Rightarrow> (e, p1)
      | (Inr f, p1) \<Rightarrow>
          (case json_load f object_pairs_hook p1 of
             (Inl e, p2) \<Rightarrow> (e, p2)
           | (Inr data, p2) \<Rightarrow>
               (case check_duplicate_keys data of
                  Inl e \<Rightarrow> (e, p2)
                | Inr True \<Rightarrow>
                    (SystemExit 1, print (''Duplicate keys found in '' @ file_path) p2)
                | Inr False \<Rightarrow>
                    (SystemExit 0, print (''No duplicate keys in '' @ file_path) p2))))"

fun except_clauses :: "string \<Rightarrow> exn \<Rightarrow> proc \<Rightarrow> exn \<times> proc" where
  "except_clauses file_path (JSONDecodeError e) p =
     (SystemExit 1, print (''Invalid JSON in '' @ file_path @ '': '' @ e) p)"
| "except_clauses file_path FileNotFoundError p =
     (SystemExit 1, print (''File not found: '' @ file_path) p)"
| "except_clauses file_path e p = (e, p)"

definition main :: "world \<Rightarrow> exn \<times> proc" where
  "main w =
     (let p0 = \<lparr>stdout = [], calls = []\<rparr> in
      if length (argv w) \<noteq> 2 then
        (SystemExit 1, print ''Usage: python json_dup_key_check.py <json_file>'' p0)
      else
        let file_path = argv w ! 1 in
        case try_body w file_path p0 of (e, p) \<Rightarrow> except_clauses file_path e p)"

text \<open>
  The interpreter ends the process: \<^verbatim>\<open>SystemExit\<close> gives its code as exit status;
  any other exception reaches the top level uncaught, where a traceback goes to standard
  error and the exit status is 1.
\<close>

record outcome =
  printed :: "string list"
  exit_code :: int
  uncaught :: "exn option"
  library_calls :: "call list"

definition run :: "world \<Rightarrow> outcome" where
  "run w =
     (case main w of
        (SystemExit c, p) \<Rightarrow>
          \<lparr>printed = stdout p, exit_code = c, uncaught = None, library_calls = calls p\<rparr>
      | (e, p) \<Rightarrow>
          \<lparr>printed = stdout p, exit_code = 1, uncaught = Some e, library_calls = calls p\<rparr>)"

section \<open>Notions of the specification\<close>

text \<open>
  A document is syntactically valid JSON when none of the three constants occurs in it.
  A number literal never denotes \<open>NaN\<close>.
\<close>

fun valid_json :: "json \<Rightarrow> bool" where
  "valid_json (JConstant c) = False"
| "valid_json (JFloat x) = (x \<noteq> NaN)"
| "valid_json (JArray xs) = list_all valid_json xs"
| "valid_json (JObject members) = list_all (\<lambda>m. valid_json (snd m)) members"
| "valid_json _ = True"

text \<open>
  A key is repeated in a sequence of keys when it occurs at two distinct positions.
\<close>

definition repeated_key :: "'a list \<Rightarrow> bool" where
  "repeated_key ks = (\<exists>j\<in>{..<length ks}. \<exists>i\<in>{..<j}. ks ! i = ks ! j)"

text \<open>
  A document has a duplicate when some object in it, at any nesting depth, inside arrays
  or other objects, has a repeated key.
\<close>

fun has_duplicate_object :: "json \<Rightarrow> bool" where
  "has_duplicate_object (JObject members) =
     (repeated_key (map fst members) \<or> (\<exists>m\<in>set members. has_duplicate_object (snd m)))"
| "has_duplicate_object (JArray xs) = (\<exists>x\<in>set xs. has_duplicate_object x)"
| "has_duplicate_object _ = False"

fun contains_object :: "json \<Rightarrow> bool" where
  "contains_object (JObject members) = True"
| "contains_object (JArray xs) = (\<exists>x\<in>set xs. contains_object x)"
| "contains_object _ = False"

text \<open>
  A path that names no existing file: the three answers of the operating system that
  say so.
\<close>

fun names_no_file :: "node \<Rightarrow> bool" where
  "names_no_file NoEntry = True"
| "names_no_file NotADirectory = True"
| "names_no_file NameTooLong = True"
| "names_no_file _ = False"

text \<open>
  \<open>nowhere\<close> answers \<^verbatim>\<open>ENOENT\<close> for every path.  \<open>invoke file_path n\<close> is the
  command line \<^verbatim>\<open>python json_dup_key_check.py file_path\<close> where the answer for
  \<open>file_path\<close> is \<open>n\<close>; the run opens no other path.
\<close>

definition nowhere :: "string \<Rightarrow> node" where
  "nowhere path = NoEntry"

definition invoke :: "string \<Rightarrow> node \<Rightarrow> world" where
  "invoke file_path n =
     \<lparr>argv = [''json_dup_key_check.py'', file_path], fs = nowhere(file_path := n)\<rparr>"

text \<open>
  \<^verbatim>\<open>python json_dup_key_check.py plain.json/child\<close> beside a regular file
  \<^verbatim>\<open>plain.json\<close>: the path names nothing, since \<^verbatim>\<open>plain.json\<close> is not a
  directory.  And the same command with a file name of 300 characters, beyond the limit
  of 255 that Linux file systems have.
\<close>

definition path_through_file :: world where
  "path_through_file =
     \<lparr>argv = [''json_dup_key_check.py'', ''plain.json/child''],
      fs = nowhere(''plain.json'' := Regular (Document (JObject [])),
                   ''plain.json/child'' := NotADirectory)\<rparr>"

definition overlong_name :: world where
  "overlong_name =
     \<lparr>argv = [''json_dup_key_check.py'', replicate 300 (CHR ''a'')],
      fs = nowhere(replicate 300 (CHR ''a'') := NameTooLong)\<rparr>"

text \<open>
  Documents used as concrete inputs below: scenario 3 of the specification,
  \<^verbatim>\<open>{"a": {"x": 1, "x": 2}, "b": 3}\<close>; the array \<^verbatim>\<open>[1, 2, 3]\<close>; the array of
  two-element arrays \<^verbatim>\<open>[["a", 1], ["a", 2]]\<close>; and \<^verbatim>\<open>{"ratio": NaN}\<close>, which
  is not JSON.
\<close>

definition nan_doc :: json where
  "nan_doc = JObject [(''ratio'', JConstant CNaN)]"

definition nested_duplicate_doc :: json where
  "nested_duplicate_doc =
     JObject [(''a'', JObject [(''x'', JInt 1), (''x'', JInt 2)]), (''b'', JInt 3)]"

definition number_array_doc :: json where
  "number_array_doc = JArray [JInt 1, JInt 2, JInt 3]"

definition pair_array_doc :: json where
  "pair_array_doc = JArray [JArray [JString ''a'', JInt 1], JArray [JString ''a'', JInt 2]]"

section \<open>The loop against the declarative notion\<close>

lemma repeated_key_iff: "repeated_key ks \<longleftrightarrow> \<not> distinct ks"
proof
  assume "repeated_key ks"
  then obtain i j where ij: "j < length ks" "i < j" "ks ! i = ks ! j"
    unfolding repeated_key_def by auto
  then have "i < length ks" "i \<noteq> j" by simp_all
  with ij show "\<not> distinct ks" unfolding distinct_conv_nth by blast
next
  assume "\<not> distinct ks"
  then obtain i j where ij: "i < length ks" "j < length ks" "i \<noteq> j" "ks ! i = ks ! j"
    unfolding distinct_conv_nth by blast
  show "repeated_key ks"
  proof (cases "i < j")
    case True
    with ij show ?thesis unfolding repeated_key_def by auto
  next
    case False
    with ij have "j < i" by simp
    with ij show ?thesis unfolding repeated_key_def by (metis lessThan_iff)
  qed
qed

lemma check_loop_step:
  "check_loop seen (PTuple [PStr k, v] # rest) =
     (if HStr k \<in> seen then Inr True else check_loop (insert (HStr k) seen) rest)"
  by (simp add: unpack2_def)

lemma seen_insert_step:
  "HStr a \<notin> seen \<Longrightarrow>
     (\<not> distinct ks \<or> (\<exists>k\<in>set ks. HStr k \<in> insert (HStr a) seen)) =
     (\<not> distinct (a # ks) \<or> (\<exists>k\<in>set (a # ks). HStr k \<in> seen))"
  by auto

lemma check_loop_members:
  "check_loop seen (map (\<lambda>m. PTuple [PStr (fst m), g m]) members) =
     Inr (\<not> distinct (map fst members) \<or> (\<exists>k\<in>set (map fst members). HStr k \<in> seen))"
proof (induction members arbitrary: seen)
  case Nil
  show ?case by simp
next
  case (Cons m members)
  show ?case
  proof (cases "HStr (fst m) \<in> seen")
    case True
    then show ?thesis by (simp add: check_loop_step del: check_loop.simps)
  next
    case False
    have "check_loop seen (map (\<lambda>m. PTuple [PStr (fst m), g m]) (m # members)) =
        check_loop (insert (HStr (fst m)) seen) (map (\<lambda>m. PTuple [PStr (fst m), g m]) members)"
      using False by (simp add: check_loop_step del: check_loop.simps)
    also have "\<dots> = Inr (\<not> distinct (map fst members) \<or>
        (\<exists>k\<in>set (map fst members). HStr k \<in> insert (HStr (fst m)) seen))"
      by (rule Cons.IH)
    also have "(\<not> distinct (map fst members) \<or>
        (\<exists>k\<in>set (map fst members). HStr k \<in> insert (HStr (fst m)) seen)) =
        (\<not> distinct (map fst (m # members)) \<or>
        (\<exists>k\<in>set (map fst (m # members)). HStr k \<in> seen))"
      using seen_insert_step [OF False, of "map fst members"] by simp
    finally show ?thesis .
  qed
qed

lemma check_pair_list:
  "check_duplicate_keys (PList (map (\<lambda>m. PTuple [PStr (fst m), g m]) members)) =
     Inr (\<not> distinct (map fst members))"
  by (simp add: check_duplicate_keys_def check_loop_members)

lemma check_object:
  "check_duplicate_keys (decode object_pairs_hook (JObject members)) =
     Inr (\<not> distinct (map fst members))"
  by (simp add: object_pairs_hook_def check_pair_list)

text \<open>
  C3.  Applied to the ordered pair sequence of one object, the loop with its set of keys
  seen so far returns true exactly when some key string occurs at two distinct positions
  of the sequence: the stepwise algorithm equals the declarative notion.
\<close>

theorem check_duplicate_keys_refines_repeated_key:
  "check_duplicate_keys (PList (map (\<lambda>m. PTuple [PStr (fst m), snd m]) pairs)) =
     Inr (repeated_key (map fst pairs))"
  by (simp add: check_pair_list repeated_key_iff)

section \<open>What the process does, case by case\<close>

text \<open>
  \<^verbatim>\<open>check_duplicate_keys\<close> raises nothing but \<^verbatim>\<open>TypeError\<close> and
  \<^verbatim>\<open>ValueError\<close>, so what it raises is never caught by the \<^verbatim>\<open>except\<close> clauses.
\<close>

lemma sequence_error: "sequence rs = Inl e \<Longrightarrow> Inl e \<in> set rs"
  by (induction rs rule: sequence.induct) (auto split: sum.splits)

lemma hash_key_error: "hash_key v = Inl e \<Longrightarrow> e = TypeError"
proof (induction v arbitrary: e rule: hash_key.induct)
  case (7 xs)
  from "7.prems" have "sequence (map hash_key xs) = Inl e"
    by (simp split: sum.splits)
  then have "Inl e \<in> set (map hash_key xs)" by (rule sequence_error)
  then obtain x where "x \<in> set xs" "hash_key x = Inl e" by auto
  then show ?case using "7.IH" by blast
qed simp_all

lemma iter_error: "iter v = Inl e \<Longrightarrow> e = TypeError"
  by (cases v) simp_all

lemma unpack2_error: "unpack2 item = Inl e \<Longrightarrow> e = TypeError \<or> e = ValueError"
  unfolding unpack2_def
  by (auto split: sum.splits list.splits dest: iter_error)

lemma check_loop_error: "check_loop seen items = Inl e \<Longrightarrow> e = TypeError \<or> e = ValueError"
proof (induction items arbitrary: seen)
  case Nil
  then show ?case by simp
next
  case (Cons item items)
  then show ?case
    by (auto split: sum.splits prod.splits if_splits dest: unpack2_error hash_key_error)
qed

lemma check_duplicate_keys_error:
  "check_duplicate_keys v = Inl e \<Longrightarrow> e = TypeError \<or> e = ValueError"
  unfolding check_duplicate_keys_def
  by (auto split: sum.splits dest: iter_error check_loop_error)

lemma main_usage:
  "length (argv w) \<noteq> 2 \<Longrightarrow>
     main w = (SystemExit 1,
       \<lparr>stdout = [''Usage: python json_dup_key_check.py <json_file>''], calls = []\<rparr>)"
  by (simp add: main_def print_def)

lemma main_try:
  "argv w = [prog, file_path] \<Longrightarrow>
     main w = (case try_body w file_path \<lparr>stdout = [], calls = []\<rparr> of
                 (e, p) \<Rightarrow> except_clauses file_path e p)"
  by (simp add: main_def)

lemma run_no_entry:
  "argv w = [prog, file_path] \<Longrightarrow> fs w file_path = NoEntry \<Longrightarrow>
     run w = \<lparr>printed = [''File not found: '' @ file_path], exit_code = 1,
               uncaught = None, library_calls = [Open file_path]\<rparr>"
  by (simp add: run_def main_try try_body_def open_file_def print_def)

lemma run_unopenable:
  "argv w = [prog, file_path] \<Longrightarrow> fs w file_path = Directory \<Longrightarrow>
     run w = \<lparr>printed = [], exit_code = 1,
               uncaught = Some IsADirectoryError, library_calls = [Open file_path]\<rparr>"
  "argv w = [prog, file_path] \<Longrightarrow> fs w file_path = Forbidden \<Longrightarrow>
     run w = \<lparr>printed = [], exit_code = 1,
               uncaught = Some PermissionError, library_calls = [Open file_path]\<rparr>"
  by (simp_all add: run_def main_try try_body_def open_file_def print_def)

lemma run_unresolvable:
  "argv w = [prog, file_path] \<Longrightarrow> fs w file_path = NotADirectory \<Longrightarrow>
     run w = \<lparr>printed = [], exit_code = 1,
               uncaught = Some NotADirectoryError, library_calls = [Open file_path]\<rparr>"
  "argv w = [prog, file_path] \<Longrightarrow> fs w file_path = NameTooLong \<Longrightarrow>
     run w = \<lparr>printed = [], exit_code = 1,
               uncaught = Some OSError, library_calls = [Open file_path]\<rparr>"
  by (simp_all add: run_def main_try try_body_def open_file_def print_def)

lemma run_undecodable:
  "argv w = [prog, file_path] \<Longrightarrow> fs w file_path = Regular Undecodable \<Longrightarrow>
     run w = \<lparr>printed = [], exit_code = 1,
               uncaught = Some UnicodeDecodeError, library_calls = [Open file_path, JsonLoad]\<rparr>"
  by (simp add: run_def main_try try_body_def open_file_def json_load_def print_def)

lemma run_malformed:
  "argv w = [prog, file_path] \<Longrightarrow> fs w file_path = Regular (Malformed detail) \<Longrightarrow>
     run w = \<lparr>printed = [''Invalid JSON in '' @ file_path @ '': '' @ detail], exit_code = 1,
               uncaught = None, library_calls = [Open file_path, JsonLoad]\<rparr>"
  by (simp add: run_def main_try try_body_def open_file_def json_load_def print_def)

lemma run_document_checked:
  "argv w = [prog, file_path] \<Longrightarrow> fs w file_path = Regular (Document d) \<Longrightarrow>
   check_duplicate_keys (decode object_pairs_hook d) = Inr b \<Longrightarrow>
     run w = \<lparr>printed = [(if b then ''Duplicate keys found in '' else ''No duplicate keys in '') @ file_path],
               exit_code = (if b then 1 else 0),
               uncaught = None, library_calls = [Open file_path, JsonLoad]\<rparr>"
  by (simp add: run_def main_try try_body_def open_file_def json_load_def print_def)

lemma run_document_raised:
  assumes "argv w = [prog, file_path]" "fs w file_path = Regular (Document d)"
    and "check_duplicate_keys (decode object_pairs_hook d) = Inl e"
  shows "run w = \<lparr>printed = [], exit_code = 1,
               uncaught = Some e, library_calls = [Open file_path, JsonLoad]\<rparr>"
proof -
  from assms(3) have "e = TypeError \<or> e = ValueError" by (rule check_duplicate_keys_error)
  then show ?thesis using assms
    by (auto simp add: run_def main_try try_body_def open_file_def json_load_def)
qed

lemma invoke_argv: "argv (invoke file_path n) = [''json_dup_key_check.py'', file_path]"
  by (simp add: invoke_def)

lemma invoke_fs: "fs (invoke file_path n) file_path = n"
  by (simp add: invoke_def)

section \<open>Duplicates and nesting depth\<close>

text \<open>
  C1.  Every valid JSON document with a repeated key in some object, at any nesting
  depth, is to be reported: the check returns true and the process prints the
  duplicate-found message and exits with code 1.  The code does not do so.  The comment
  on line 24 announces the hook as the means to detect duplicates, yet the hook returns
  every object's pair list unchanged and \<^verbatim>\<open>check_duplicate_keys\<close> is called once,
  on the outermost value; the pair lists of nested objects are values of its pairs and
  are never looked at.  On scenario 3 of the specification,
  \<^verbatim>\<open>{"a": {"x": 1, "x": 2}, "b": 3}\<close>, whose inner object repeats \<^verbatim>\<open>x\<close>, the
  check returns false and the process prints \<^verbatim>\<open>No duplicate keys in config.json\<close>
  and exits 0, where the specification requires exit 1.
\<close>

theorem nested_duplicate_goes_undetected:
  "valid_json nested_duplicate_doc \<and>
   has_duplicate_object nested_duplicate_doc \<and>
   check_duplicate_keys (decode object_pairs_hook nested_duplicate_doc) = Inr False \<and>
   run (invoke ''config.json'' (Regular (Document nested_duplicate_doc))) =
     \<lparr>printed = [''No duplicate keys in config.json''], exit_code = 0,
      uncaught = None, library_calls = [Open ''config.json'', JsonLoad]\<rparr>"
proof -
  have valid: "valid_json nested_duplicate_doc"
    by (simp add: nested_duplicate_doc_def)
  have dup: "has_duplicate_object nested_duplicate_doc"
    by (simp add: nested_duplicate_doc_def repeated_key_iff)
  have chk: "check_duplicate_keys (decode object_pairs_hook nested_duplicate_doc) = Inr False"
    unfolding nested_duplicate_doc_def
    using check_object [of "[(''a'', JObject [(''x'', JInt 1), (''x'', JInt 2)]), (''b'', JInt 3)]"]
    by simp
  have "run (invoke ''config.json'' (Regular (Document nested_duplicate_doc))) =
     \<lparr>printed = [''No duplicate keys in config.json''], exit_code = 0,
      uncaught = None, library_calls = [Open ''config.json'', JsonLoad]\<rparr>"
    using run_document_checked [OF invoke_argv invoke_fs chk] by simp
  with valid dup chk show ?thesis by simp
qed

text \<open>
  What the code does find is a repeated key among the keys of the top-level object.
\<close>

theorem top_level_duplicate_detected:
  assumes "argv w = [prog, file_path]"
    and "fs w file_path = Regular (Document (JObject members))"
    and "repeated_key (map fst members)"
  shows "check_duplicate_keys (decode object_pairs_hook (JObject members)) = Inr True \<and>
    run w = \<lparr>printed = [''Duplicate keys found in '' @ file_path], exit_code = 1,
             uncaught = None, library_calls = [Open file_path, JsonLoad]\<rparr>"
proof -
  have chk: "check_duplicate_keys (decode object_pairs_hook (JObject members)) = Inr True"
    using assms(3) check_object [of members] by (simp add: repeated_key_iff)
  show ?thesis using run_document_checked [OF assms(1,2) chk] chk by simp
qed

text \<open>
  Scenario 2 of the specification, \<^verbatim>\<open>{"a": 1, "a": 2}\<close>.
\<close>

theorem top_level_duplicate_detected_witness:
  "argv (invoke ''config.json'' (Regular (Document (JObject [(''a'', JInt 1), (''a'', JInt 2)])))) =
     [''json_dup_key_check.py'', ''config.json''] \<and>
   repeated_key (map fst [(''a'', JInt 1), (''a'', JInt 2)]) \<and>
   check_duplicate_keys (decode object_pairs_hook (JObject [(''a'', JInt 1), (''a'', JInt 2)])) = Inr True \<and>
   run (invoke ''config.json'' (Regular (Document (JObject [(''a'', JInt 1), (''a'', JInt 2)])))) =
     \<lparr>printed = [''Duplicate keys found in config.json''], exit_code = 1,
      uncaught = None, library_calls = [Open ''config.json'', JsonLoad]\<rparr>"
proof -
  have rep: "repeated_key (map fst [(''a'', JInt 1), (''a'', JInt 2)])"
    by (simp add: repeated_key_iff)
  show ?thesis
    using top_level_duplicate_detected [OF invoke_argv invoke_fs rep] rep
    by (simp add: invoke_argv)
qed

text \<open>
  C2.  Every valid JSON document in which no object has a repeated key is to pass: the
  check returns false and the process prints the no-duplicate message and exits with
  code 0.  The code does not do so.  Line 28 hands the decoded value to
  \<^verbatim>\<open>check_duplicate_keys\<close>, whose docstring speaks of a JSON object, whatever the
  top-level value is.  \<^verbatim>\<open>[1, 2, 3]\<close> has no object at all, hence no repeated key;
  its first element cannot be unpacked into \<^verbatim>\<open>key, value\<close>, the
  \<^verbatim>\<open>TypeError\<close> is not caught, nothing is printed and the process ends with a
  traceback and exit status 1.
\<close>

theorem non_object_document_raises:
  "valid_json number_array_doc \<and>
   \<not> has_duplicate_object number_array_doc \<and>
   check_duplicate_keys (decode object_pairs_hook number_array_doc) = Inl TypeError \<and>
   run (invoke ''config.json'' (Regular (Document number_array_doc))) =
     \<lparr>printed = [], exit_code = 1,
      uncaught = Some TypeError, library_calls = [Open ''config.json'', JsonLoad]\<rparr>"
proof -
  have valid: "valid_json number_array_doc"
    by (simp add: number_array_doc_def)
  have nodup: "\<not> has_duplicate_object number_array_doc"
    by (simp add: number_array_doc_def)
  have chk: "check_duplicate_keys (decode object_pairs_hook number_array_doc) = Inl TypeError"
    by (simp add: number_array_doc_def check_duplicate_keys_def unpack2_def)
  show ?thesis using run_document_raised [OF invoke_argv invoke_fs chk] valid nodup chk by simp
qed

text \<open>
  A document whose top-level value is an object does pass when no object in it has a
  repeated key.
\<close>

theorem object_without_duplicates_passes:
  assumes "argv w = [prog, file_path]"
    and "fs w file_path = Regular (Document (JObject members))"
    and "\<not> has_duplicate_object (JObject members)"
  shows "check_duplicate_keys (decode object_pairs_hook (JObject members)) = Inr False \<and>
    run w = \<lparr>printed = [''No duplicate keys in '' @ file_path], exit_code = 0,
             uncaught = None, library_calls = [Open file_path, JsonLoad]\<rparr>"
proof -
  from assms(3) have "\<not> repeated_key (map fst members)" by simp
  then have chk: "check_duplicate_keys (decode object_pairs_hook (JObject members)) = Inr False"
    using check_object [of members] by (simp add: repeated_key_iff)
  show ?thesis using run_document_checked [OF assms(1,2) chk] chk by simp
qed

text \<open>
  Scenario 1 of the specification, \<^verbatim>\<open>{"a": 1, "b": 2}\<close>.
\<close>

theorem object_without_duplicates_passes_witness:
  "argv (invoke ''config.json'' (Regular (Document (JObject [(''a'', JInt 1), (''b'', JInt 2)])))) =
     [''json_dup_key_check.py'', ''config.json''] \<and>
   \<not> has_duplicate_object (JObject [(''a'', JInt 1), (''b'', JInt 2)]) \<and>
   check_duplicate_keys (decode object_pairs_hook (JObject [(''a'', JInt 1), (''b'', JInt 2)])) = Inr False \<and>
   run (invoke ''config.json'' (Regular (Document (JObject [(''a'', JInt 1), (''b'', JInt 2)])))) =
     \<lparr>printed = [''No duplicate keys in config.json''], exit_code = 0,
      uncaught = None, library_calls = [Open ''config.json'', JsonLoad]\<rparr>"
proof -
  have nodup: "\<not> has_duplicate_object (JObject [(''a'', JInt 1), (''b'', JInt 2)])"
    by (simp add: repeated_key_iff)
  show ?thesis
    using object_without_duplicates_passes [OF invoke_argv invoke_fs nodup] nodup
    by (simp add: invoke_argv)
qed

section \<open>Key comparison\<close>



section \<open>Errors that \<^verbatim>\<open>main\<close> reports\<close>

text \<open>
  C5, as stated, fails.  The claim promises the invalid-JSON outcome for every text that
  is not syntactically valid JSON.  \<^verbatim>\<open>{"ratio": NaN}\<close> is not JSON, yet the decoder
  accepts it: no \<^verbatim>\<open>JSONDecodeError\<close> is raised, and the process prints the
  no-duplicate message and exits 0.
\<close>

theorem non_json_constant_accepted:
  "\<not> valid_json nan_doc \<and>
   run (invoke ''metrics.json'' (Regular (Document nan_doc))) =
     \<lparr>printed = [''No duplicate keys in metrics.json''], exit_code = 0,
      uncaught = None, library_calls = [Open ''metrics.json'', JsonLoad]\<rparr>"
proof -
  have inv: "\<not> valid_json nan_doc"
    by (simp add: nan_doc_def)
  have chk: "check_duplicate_keys (decode object_pairs_hook nan_doc) = Inr False"
    unfolding nan_doc_def using check_object [of "[(''ratio'', JConstant CNaN)]"] by simp
  show ?thesis using run_document_checked [OF invoke_argv invoke_fs chk] inv by simp
qed

text \<open>
  C5, amended.  For every text that the decoder rejects, that is every text that is not
  syntactically valid JSON even with \<^verbatim>\<open>NaN\<close>, \<^verbatim>\<open>Infinity\<close> and
  \<^verbatim>\<open>-Infinity\<close> allowed as values, parsing fails with \<^verbatim>\<open>JSONDecodeError\<close>
  and the process prints exactly
  \<^verbatim>\<open>Invalid JSON in {file_path}: {parser error detail}\<close> and exits with code 1; what
  it prints is not the duplicate-found message.
\<close>

theorem invalid_json_reported:
  assumes "argv w = [prog, file_path]"
    and "fs w file_path = Regular (Malformed detail)"
  shows "run w =
      \<lparr>printed = [''Invalid JSON in '' @ file_path @ '': '' @ detail], exit_code = 1,
       uncaught = None, library_calls = [Open file_path, JsonLoad]\<rparr> \<and>
    printed (run w) \<noteq> [''Duplicate keys found in '' @ file_path]"
  using run_malformed [OF assms] by simp

text \<open>
  The amended C5 at scenario 4 of the specification: a file holding \<^verbatim>\<open>not json at all\<close>, for
  which the decoder's detail is \<^verbatim>\<open>Expecting value: line 1 column 1 (char 0)\<close>.
\<close>

theorem invalid_json_reported_witness:
  "argv (invoke ''bad.json'' (Regular (Malformed ''Expecting value: line 1 column 1 (char 0)''))) =
     [''json_dup_key_check.py'', ''bad.json''] \<and>
   run (invoke ''bad.json'' (Regular (Malformed ''Expecting value: line 1 column 1 (char 0)''))) =
     \<lparr>printed = [''Invalid JSON in bad.json: Expecting value: line 1 column 1 (char 0)''],
      exit_code = 1, uncaught = None, library_calls = [Open ''bad.json'', JsonLoad]\<rparr>"
  using invalid_json_reported [OF invoke_argv invoke_fs,
      of "''bad.json''" "''Expecting value: line 1 column 1 (char 0)''"]
  by (simp add: invoke_argv)

text \<open>
  C6.  Every path argument that names no existing file is to be reported: the process
  prints exactly \<^verbatim>\<open>File not found: {file_path}\<close> and exits with code 1, and no
  parse is attempted.  The code does not do so.  Line 38 catches
  \<^verbatim>\<open>FileNotFoundError\<close> only, which \<^verbatim>\<open>open\<close> raises for \<^verbatim>\<open>ENOENT\<close>.
  For \<^verbatim>\<open>plain.json/child\<close> beside a regular file \<^verbatim>\<open>plain.json\<close> it raises
  \<^verbatim>\<open>NotADirectoryError\<close>, and for an over-long file name \<^verbatim>\<open>OSError\<close>; both
  paths name no existing file, neither exception is caught, and the process ends with a
  traceback and without the file-not-found message.
\<close>

theorem unresolvable_path_not_reported:
  "names_no_file (fs path_through_file ''plain.json/child'') \<and>
   run path_through_file =
     \<lparr>printed = [], exit_code = 1, uncaught = Some NotADirectoryError,
      library_calls = [Open ''plain.json/child'']\<rparr> \<and>
   names_no_file (fs overlong_name (replicate 300 (CHR ''a''))) \<and>
   run overlong_name =
     \<lparr>printed = [], exit_code = 1, uncaught = Some OSError,
      library_calls = [Open (replicate 300 (CHR ''a''))]\<rparr>"
proof -
  have a1: "argv path_through_file = [''json_dup_key_check.py'', ''plain.json/child'']"
    by (simp add: path_through_file_def)
  have f1: "fs path_through_file ''plain.json/child'' = NotADirectory"
    by (simp add: path_through_file_def)
  have a2: "argv overlong_name = [''json_dup_key_check.py'', replicate 300 (CHR ''a'')]"
    by (simp add: overlong_name_def)
  have f2: "fs overlong_name (replicate 300 (CHR ''a'')) = NameTooLong"
    by (simp add: overlong_name_def)
  show ?thesis
    using run_unresolvable(1) [OF a1 f1] run_unresolvable(2) [OF a2 f2] f1 f2 by simp
qed

text \<open>
  What the code does report is the path for which the operating system answers that no
  such file or directory exists: then it prints exactly
  \<^verbatim>\<open>File not found: {file_path}\<close> and exits with code 1; the only library call is
  the \<^verbatim>\<open>open\<close> that failed, and the decoder is never called.
\<close>

theorem missing_file_reported:
  assumes "argv w = [prog, file_path]"
    and "fs w file_path = NoEntry"
  shows "run w =
      \<lparr>printed = [''File not found: '' @ file_path], exit_code = 1,
       uncaught = None, library_calls = [Open file_path]\<rparr> \<and>
    JsonLoad \<notin> set (library_calls (run w))"
  using run_no_entry [OF assms] by simp

text \<open>
  Scenario 5 of the specification: \<^verbatim>\<open>/tmp/does-not-exist.json\<close> where no path
  names anything.
\<close>

theorem missing_file_reported_witness:
  "argv \<lparr>argv = [''json_dup_key_check.py'', ''/tmp/does-not-exist.json''], fs = nowhere\<rparr> =
     [''json_dup_key_check.py'', ''/tmp/does-not-exist.json''] \<and>
   fs \<lparr>argv = [''json_dup_key_check.py'', ''/tmp/does-not-exist.json''], fs = nowhere\<rparr>
     ''/tmp/does-not-exist.json'' = NoEntry \<and>
   run \<lparr>argv = [''json_dup_key_check.py'', ''/tmp/does-not-exist.json''], fs = nowhere\<rparr> =
     \<lparr>printed = [''File not found: /tmp/does-not-exist.json''], exit_code = 1,
      uncaught = None, library_calls = [Open ''/tmp/does-not-exist.json'']\<rparr>"
  using missing_file_reported
    [of "\<lparr>argv = [''json_dup_key_check.py'', ''/tmp/does-not-exist.json''], fs = nowhere\<rparr>"
        "''json_dup_key_check.py''" "''/tmp/does-not-exist.json''"]
  by (simp add: nowhere_def)

text \<open>
  C7.  When \<^verbatim>\<open>sys.argv\<close> does not consist of the program name and exactly one
  argument, the process prints exactly
  \<^verbatim>\<open>Usage: python json_dup_key_check.py <json_file>\<close> and exits with code 1, having
  opened no file.
\<close>

theorem wrong_argument_count_is_usage_error:
  assumes "length (argv w) \<noteq> 2"
  shows "run w =
      \<lparr>printed = [''Usage: python json_dup_key_check.py <json_file>''], exit_code = 1,
       uncaught = None, library_calls = []\<rparr>"
  using main_usage [OF assms] by (simp add: run_def)

text \<open>
  C7 with no argument (scenario 6 of the specification) and with two arguments.
\<close>

theorem wrong_argument_count_is_usage_error_witness:
  "length (argv \<lparr>argv = [''json_dup_key_check.py''], fs = nowhere\<rparr>) = 1 \<and>
   run \<lparr>argv = [''json_dup_key_check.py''], fs = nowhere\<rparr> =
     \<lparr>printed = [''Usage: python json_dup_key_check.py <json_file>''], exit_code = 1,
      uncaught = None, library_calls = []\<rparr> \<and>
   length (argv (invoke ''a.json'' (Regular (Document JNull))\<lparr>argv := [''json_dup_key_check.py'', ''a.json'', ''b.json'']\<rparr>)) = 3 \<and>
   run (invoke ''a.json'' (Regular (Document JNull))\<lparr>argv := [''json_dup_key_check.py'', ''a.json'', ''b.json'']\<rparr>) =
     \<lparr>printed = [''Usage: python json_dup_key_check.py <json_file>''], exit_code = 1,
      uncaught = None, library_calls = []\<rparr>"
  using wrong_argument_count_is_usage_error [of "\<lparr>argv = [''json_dup_key_check.py''], fs = nowhere\<rparr>"]
    wrong_argument_count_is_usage_error
      [of "invoke ''a.json'' (Regular (Document JNull))\<lparr>argv := [''json_dup_key_check.py'', ''a.json'', ''b.json'']\<rparr>"]
  by simp

section \<open>Determinism\<close>

text \<open>
  C8.  Two runs on the same file path whose file has the same contents end in the same
  outcome: same printed message, same exit code.  Nothing else of the surroundings
  matters, neither the program name nor any other file.
\<close>

theorem same_file_same_outcome:
  assumes "argv w = [prog, file_path]"
    and "argv w' = [prog', file_path]"
    and "fs w file_path = fs w' file_path"
  shows "run w = run w'"
  using assms by (simp add: run_def main_try try_body_def open_file_def)

text \<open>
  C8 at two runs that differ in the program name and in a second file.
\<close>

theorem same_file_same_outcome_witness:
  "argv (invoke ''a.json'' (Regular (Document nested_duplicate_doc))) =
     [''json_dup_key_check.py'', ''a.json''] \<and>
   argv \<lparr>argv = [''./check'', ''a.json''],
         fs = nowhere(''a.json'' := Regular (Document nested_duplicate_doc), ''b.json'' := Directory)\<rparr> =
     [''./check'', ''a.json''] \<and>
   fs (invoke ''a.json'' (Regular (Document nested_duplicate_doc))) ''a.json'' =
   fs \<lparr>argv = [''./check'', ''a.json''],
       fs = nowhere(''a.json'' := Regular (Document nested_duplicate_doc), ''b.json'' := Directory)\<rparr>
     ''a.json'' \<and>
   run (invoke ''a.json'' (Regular (Document nested_duplicate_doc))) =
   run \<lparr>argv = [''./check'', ''a.json''],
        fs = nowhere(''a.json'' := Regular (Document nested_duplicate_doc), ''b.json'' := Directory)\<rparr>"
proof -
  let ?w = "invoke ''a.json'' (Regular (Document nested_duplicate_doc))"
  let ?w' = "\<lparr>argv = [''./check'', ''a.json''],
        fs = nowhere(''a.json'' := Regular (Document nested_duplicate_doc), ''b.json'' := Directory)\<rparr>"
  have a: "argv ?w = [''json_dup_key_check.py'', ''a.json'']" by (rule invoke_argv)
  have b: "argv ?w' = [''./check'', ''a.json'']" by simp
  have c: "fs ?w ''a.json'' = fs ?w' ''a.json''" by (simp add: invoke_fs)
  from same_file_same_outcome [OF a b c] a b c show ?thesis by blast
qed

section \<open>Failures that are not caught\<close>

lemma check_not_iterable:
  "check_duplicate_keys (decode object_pairs_hook JNull) = Inl TypeError"
  "check_duplicate_keys (decode object_pairs_hook (JBool b)) = Inl TypeError"
  "check_duplicate_keys (decode object_pairs_hook (JInt i)) = Inl TypeError"
  "check_duplicate_keys (decode object_pairs_hook (JFloat x)) = Inl TypeError"
  by (simp_all add: check_duplicate_keys_def)

lemma check_string:
  "s \<noteq> [] \<Longrightarrow> check_duplicate_keys (decode object_pairs_hook (JString s)) = Inl ValueError"
  by (cases s) (simp_all add: check_duplicate_keys_def unpack2_def)

lemma check_array_first:
  "unpack2 (decode object_pairs_hook y) = Inl e \<Longrightarrow>
     check_duplicate_keys (decode object_pairs_hook (JArray (y # ys))) = Inl e"
  by (simp add: check_duplicate_keys_def)

text \<open>
  C9.  The \<^verbatim>\<open>except\<close> clauses catch \<^verbatim>\<open>JSONDecodeError\<close> and
  \<^verbatim>\<open>FileNotFoundError\<close> and nothing else.  Any other exception ends the process
  with nothing printed: a path that names a directory, a file whose bytes are not text,
  and every exception that \<^verbatim>\<open>check_duplicate_keys\<close> raises on a valid JSON
  document.  It does raise on valid documents whose top-level value is not an object: on
  a number, on a string that is not empty, and on an array whose first element cannot be
  unpacked into \<^verbatim>\<open>key, value\<close>.
\<close>

theorem other_exceptions_propagate:
  assumes "argv w = [prog, file_path]"
  shows
   "((\<forall>detail. e0 \<noteq> JSONDecodeError detail) \<and> e0 \<noteq> FileNotFoundError \<longrightarrow>
       except_clauses file_path e0 p = (e0, p)) \<and>
    (fs w file_path = Directory \<longrightarrow>
       run w = \<lparr>printed = [], exit_code = 1, uncaught = Some IsADirectoryError,
                library_calls = [Open file_path]\<rparr>) \<and>
    (fs w file_path = Regular Undecodable \<longrightarrow>
       run w = \<lparr>printed = [], exit_code = 1, uncaught = Some UnicodeDecodeError,
                library_calls = [Open file_path, JsonLoad]\<rparr>) \<and>
    (fs w file_path = Regular (Document d) \<and>
     check_duplicate_keys (decode object_pairs_hook d) = Inl e \<longrightarrow>
       run w = \<lparr>printed = [], exit_code = 1, uncaught = Some e,
                library_calls = [Open file_path, JsonLoad]\<rparr>) \<and>
    (fs w file_path = Regular (Document (JInt i)) \<or>
     fs w file_path = Regular (Document (JFloat x)) \<longrightarrow>
       run w = \<lparr>printed = [], exit_code = 1, uncaught = Some TypeError,
                library_calls = [Open file_path, JsonLoad]\<rparr>) \<and>
    (fs w file_path = Regular (Document (JString s)) \<and> s \<noteq> [] \<longrightarrow>
       run w = \<lparr>printed = [], exit_code = 1, uncaught = Some ValueError,
                library_calls = [Open file_path, JsonLoad]\<rparr>) \<and>
    (fs w file_path = Regular (Document (JArray (y # ys))) \<and>
     unpack2 (decode object_pairs_hook y) = Inl e' \<longrightarrow>
       run w = \<lparr>printed = [], exit_code = 1, uncaught = Some e',
                library_calls = [Open file_path, JsonLoad]\<rparr>)"
proof (intro conjI impI)
  assume "(\<forall>detail. e0 \<noteq> JSONDecodeError detail) \<and> e0 \<noteq> FileNotFoundError"
  then show "except_clauses file_path e0 p = (e0, p)"
    by (cases e0) simp_all
next
  assume "fs w file_path = Directory"
  then show "run w = \<lparr>printed = [], exit_code = 1, uncaught = Some IsADirectoryError,
                library_calls = [Open file_path]\<rparr>"
    using assms by (rule run_unopenable(1) [rotated])
next
  assume "fs w file_path = Regular Undecodable"
  with assms show "run w = \<lparr>printed = [], exit_code = 1, uncaught = Some UnicodeDecodeError,
                library_calls = [Open file_path, JsonLoad]\<rparr>"
    by (rule run_undecodable)
next
  assume "fs w file_path = Regular (Document d) \<and>
     check_duplicate_keys (decode object_pairs_hook d) = Inl e"
  with assms show "run w = \<lparr>printed = [], exit_code = 1, uncaught = Some e,
                library_calls = [Open file_path, JsonLoad]\<rparr>"
    by (blast intro: run_document_raised)
next
  assume "fs w file_path = Regular (Document (JInt i)) \<or>
     fs w file_path = Regular (Document (JFloat x))"
  with assms show "run w = \<lparr>printed = [], exit_code = 1, uncaught = Some TypeError,
                library_calls = [Open file_path, JsonLoad]\<rparr>"
    by (blast intro: run_document_raised check_not_iterable)
next
  assume "fs w file_path = Regular (Document (JString s)) \<and> s \<noteq> []"
  with assms show "run w = \<lparr>printed = [], exit_code = 1, uncaught = Some ValueError,
                library_calls = [Open file_path, JsonLoad]\<rparr>"
    by (blast intro: run_document_raised check_string)
next
  assume "fs w file_path = Regular (Document (JArray (y # ys))) \<and>
     unpack2 (decode object_pairs_hook y) = Inl e'"
  with assms show "run w = \<lparr>printed = [], exit_code = 1, uncaught = Some e',
                library_calls = [Open file_path, JsonLoad]\<rparr>"
    by (blast intro: run_document_raised check_array_first)
qed

text \<open>
  C9 at a directory, at a file that is not text, and at the valid documents
  \<^verbatim>\<open>42\<close>, \<^verbatim>\<open>"abc"\<close> and \<^verbatim>\<open>[[1, 2, 3]]\<close>.
\<close>

theorem other_exceptions_propagate_witness:
  "run (invoke ''build'' Directory) =
     \<lparr>printed = [], exit_code = 1, uncaught = Some IsADirectoryError,
      library_calls = [Open ''build'']\<rparr> \<and>
   run (invoke ''latin1.json'' (Regular Undecodable)) =
     \<lparr>printed = [], exit_code = 1, uncaught = Some UnicodeDecodeError,
      library_calls = [Open ''latin1.json'', JsonLoad]\<rparr> \<and>
   run (invoke ''n.json'' (Regular (Document (JInt 42)))) =
     \<lparr>printed = [], exit_code = 1, uncaught = Some TypeError,
      library_calls = [Open ''n.json'', JsonLoad]\<rparr> \<and>
   run (invoke ''s.json'' (Regular (Document (JString ''abc'')))) =
     \<lparr>printed = [], exit_code = 1, uncaught = Some ValueError,
      library_calls = [Open ''s.json'', JsonLoad]\<rparr> \<and>
   run (invoke ''t.json'' (Regular (Document (JArray [JArray [JInt 1, JInt 2, JInt 3]])))) =
     \<lparr>printed = [], exit_code = 1, uncaught = Some ValueError,
      library_calls = [Open ''t.json'', JsonLoad]\<rparr>"
proof (intro conjI)
  show "run (invoke ''build'' Directory) =
     \<lparr>printed = [], exit_code = 1, uncaught = Some IsADirectoryError,
      library_calls = [Open ''build'']\<rparr>"
    using other_exceptions_propagate
      [where w = "invoke ''build'' Directory" and file_path = "''build''", OF invoke_argv]
    by (simp add: invoke_fs)
next
  show "run (invoke ''latin1.json'' (Regular Undecodable)) =
     \<lparr>printed = [], exit_code = 1, uncaught = Some UnicodeDecodeError,
      library_calls = [Open ''latin1.json'', JsonLoad]\<rparr>"
    using other_exceptions_propagate
      [where w = "invoke ''latin1.json'' (Regular Undecodable)" and file_path = "''latin1.json''",
        OF invoke_argv]
    by (simp add: invoke_fs)
next
  show "run (invoke ''n.json'' (Regular (Document (JInt 42)))) =
     \<lparr>printed = [], exit_code = 1, uncaught = Some TypeError,
      library_calls = [Open ''n.json'', JsonLoad]\<rparr>"
    using other_exceptions_propagate
      [where w = "invoke ''n.json'' (Regular (Document (JInt 42)))" and file_path = "''n.json''"
        and i = 42, OF invoke_argv]
    by (simp add: invoke_fs)
next
  show "run (invoke ''s.json'' (Regular (Document (JString ''abc'')))) =
     \<lparr>printed = [], exit_code = 1, uncaught = Some ValueError,
      library_calls = [Open ''s.json'', JsonLoad]\<rparr>"
    using other_exceptions_propagate
      [where w = "invoke ''s.json'' (Regular (Document (JString ''abc'')))"
        and file_path = "''s.json''" and s = "''abc''", OF invoke_argv]
    by (simp add: invoke_fs)
next
  have "unpack2 (decode object_pairs_hook (JArray [JInt 1, JInt 2, JInt 3])) = Inl ValueError"
    by (simp add: unpack2_def)
  then show "run (invoke ''t.json'' (Regular (Document (JArray [JArray [JInt 1, JInt 2, JInt 3]])))) =
     \<lparr>printed = [], exit_code = 1, uncaught = Some ValueError,
      library_calls = [Open ''t.json'', JsonLoad]\<rparr>"
    using other_exceptions_propagate
      [where w = "invoke ''t.json'' (Regular (Document (JArray [JArray [JInt 1, JInt 2, JInt 3]])))"
        and file_path = "''t.json''" and y = "JArray [JInt 1, JInt 2, JInt 3]" and ys = "[]"
        and e' = ValueError, OF invoke_argv]
    by (simp add: invoke_fs)
qed

section \<open>Pair lists that are not objects\<close>

text \<open>
  C10.  There is a valid JSON document without any object for which the check returns
  true: the array of two-element arrays \<^verbatim>\<open>[["a", 1], ["a", 2]]\<close> is iterated and
  unpacked like an object's pair list, so the process prints the duplicate-found message
  and exits with code 1.
\<close>

theorem array_of_pairs_reported_as_duplicate:
  "valid_json pair_array_doc \<and>
   \<not> contains_object pair_array_doc \<and>
   check_duplicate_keys (decode object_pairs_hook pair_array_doc) = Inr True \<and>
   run (invoke ''pairs.json'' (Regular (Document pair_array_doc))) =
     \<lparr>printed = [''Duplicate keys found in pairs.json''], exit_code = 1,
      uncaught = None, library_calls = [Open ''pairs.json'', JsonLoad]\<rparr>"
proof -
  have valid: "valid_json pair_array_doc"
    by (simp add: pair_array_doc_def)
  have noobj: "\<not> contains_object pair_array_doc"
    by (simp add: pair_array_doc_def)
  have chk: "check_duplicate_keys (decode object_pairs_hook pair_array_doc) = Inr True"
    by (simp add: pair_array_doc_def check_duplicate_keys_def unpack2_def)
  show ?thesis using run_document_checked [OF invoke_argv invoke_fs chk] valid noobj chk by simp
qed

end
